theory Spec2Isabelle
  imports Main
begin

section \<open>Package sh: the command builder (sh.go)\<close>

text \<open>
  A Go \<^verbatim>\<open>*Builder\<close> may be nil, so a builder pointer is a \<open>Builder option\<close>.
  \<^verbatim>\<open>Opt.Value\<close> has type \<^verbatim>\<open>any\<close>: it is \<open>None\<close> for the nil interface value and
  \<open>Some v\<close> otherwise; \<^verbatim>\<open>fmt.Sprintf("%v", v)\<close> is the parameter \<open>fmtv\<close>.
  Dereferencing a nil builder panics.
\<close>

datatype panic = NilDereference | CloseOfClosedChannel

record 'v Opt =
  Key :: string
  Value :: "'v option"

record Arg =
  ArgValue :: string

datatype 'v CmdComponent = COpt "'v Opt" | CArg Arg

record 'v Builder =
  Cmd :: string
  components :: "'v CmdComponent list"

definition Opt_Items :: "('v \<Rightarrow> string) \<Rightarrow> 'v Opt \<Rightarrow> string list" where
  "Opt_Items fmtv opt =
     (case Value opt of
        Some v \<Rightarrow> [Key opt, fmtv v]
      | None \<Rightarrow> if Key opt = [] then [] else [Key opt])"

definition Arg_Items :: "Arg \<Rightarrow> string list" where
  "Arg_Items a = [ArgValue a]"

fun Component_Items :: "('v \<Rightarrow> string) \<Rightarrow> 'v CmdComponent \<Rightarrow> string list" where
  "Component_Items fmtv (COpt opt) = Opt_Items fmtv opt"
| "Component_Items fmtv (CArg a) = Arg_Items a"

definition Builder_Items :: "('v \<Rightarrow> string) \<Rightarrow> 'v Builder option \<Rightarrow> string list" where
  "Builder_Items fmtv b =
     (case b of
        None \<Rightarrow> []
      | Some b' \<Rightarrow>
          foldl (\<lambda>items component. items @ Component_Items fmtv component)
            [Cmd b'] (components b'))"

definition New_Builder :: "string \<Rightarrow> 'v Builder option" where
  "New_Builder cmd = Some \<lparr>Cmd = cmd, components = []\<rparr>"

definition OptB :: "string \<Rightarrow> 'v Builder option \<Rightarrow> panic + 'v Builder option" where
  "OptB flag s =
     (if flag = [] then Inr s
      else case s of
        None \<Rightarrow> Inl NilDereference
      | Some b \<Rightarrow>
          Inr (Some (b\<lparr>components := components b @ [COpt \<lparr>Key = flag, Value = None\<rparr>]\<rparr>)))"

definition OptV :: "string \<Rightarrow> 'v option \<Rightarrow> 'v Builder option \<Rightarrow> panic + 'v Builder option" where
  "OptV flag val s =
     (if flag = [] then Inr s
      else case s of
        None \<Rightarrow> Inl NilDereference
      | Some b \<Rightarrow>
          Inr (Some (b\<lparr>components := components b @ [COpt \<lparr>Key = flag, Value = val\<rparr>]\<rparr>)))"

definition Arg_Builder :: "string \<Rightarrow> 'v Builder option \<Rightarrow> panic + 'v Builder option" where
  "Arg_Builder val s =
     (case s of
        None \<Rightarrow> Inl NilDereference
      | Some b \<Rightarrow> Inr (Some (b\<lparr>components := components b @ [CArg \<lparr>ArgValue = val\<rparr>]\<rparr>)))"

section \<open>Package future: the base future (future.go)\<close>

text \<open>
  Go \<^verbatim>\<open>error\<close> values. \<open>Canceled\<close> and \<open>DeadlineExceeded\<close> are the two errors of package
  context, \<open>ExitError c\<close> is an \<^verbatim>\<open>*exec.ExitError\<close> whose \<^verbatim>\<open>ExitCode()\<close> is \<open>c\<close>, and
  \<open>OtherError\<close> is any other error value.
\<close>

datatype error = Canceled | DeadlineExceeded | ExitError int | OtherError string

text \<open>
  A handle is a pointer to a \<^verbatim>\<open>futureImpl\<close> cell of the heap. The channel \<^verbatim>\<open>done\<close> is
  only ever closed, so it is the flag \<open>fu_done\<close> (closed or not); \<^verbatim>\<open>sync.Once\<close> is the flag
  \<open>fu_once\<close>. The scope \<^verbatim>\<open>fu.ctx\<close> is the value of \<^verbatim>\<open>ctx.Err()\<close>: \<open>None\<close> until the
  scope is cancelled. The task \<^verbatim>\<open>fn\<close> is a function of that scope. The lock \<^verbatim>\<open>mu\<close>
  has no counterpart: the operations below are atomic steps.

  Two fields are not in the source and only count what the code does: \<open>fu_spawned\<close> is the
  number of goroutines \<^verbatim>\<open>go fu.execute()\<close> that were spawned and have not run yet, and
  \<open>fu_calls\<close> is the number of times \<^verbatim>\<open>fu.fn\<close> was called.
\<close>

type_synonym addr = nat

type_synonym Context = "error option"

record 'a futureImpl =
  fu_res :: 'a
  fu_err :: "error option"
  fu_done :: bool
  fu_fn :: "Context \<Rightarrow> 'a \<times> error option"
  fu_ctx :: Context
  fu_once :: bool
  fu_spawned :: nat
  fu_calls :: nat

type_synonym 'a heap = "addr \<Rightarrow> 'a futureImpl"

text \<open>
  \<^verbatim>\<open>New\<close> allocates the cell at the address \<open>p\<close> the allocator picked and returns \<open>p\<close>;
  \<open>zero\<close> is the zero value of the result type. The child scope of \<^verbatim>\<open>context.WithCancel\<close>
  starts in the state of its parent.
\<close>

definition New ::
  "addr \<Rightarrow> 'a \<Rightarrow> Context \<Rightarrow> (Context \<Rightarrow> 'a \<times> error option) \<Rightarrow> 'a heap \<Rightarrow> addr \<times> 'a heap" where
  "New p zero ctx fn h =
     (p, h(p := \<lparr>fu_res = zero, fu_err = None, fu_done = False, fu_fn = fn, fu_ctx = ctx,
                 fu_once = False, fu_spawned = 0, fu_calls = 0\<rparr>))"

definition Start :: "addr \<Rightarrow> 'a heap \<Rightarrow> addr \<times> 'a heap" where
  "Start fu h =
     (fu, if fu_once (h fu) then h
          else h(fu := (h fu)\<lparr>fu_once := True, fu_spawned := fu_spawned (h fu) + 1\<rparr>))"

definition Cancel :: "addr \<Rightarrow> 'a heap \<Rightarrow> 'a heap" where
  "Cancel fu h =
     h(fu := (h fu)\<lparr>fu_ctx := (case fu_ctx (h fu) of None \<Rightarrow> Some Canceled | Some e \<Rightarrow> Some e)\<rparr>)"

text \<open>\<^verbatim>\<open>Wait\<close> receives from \<^verbatim>\<open>fu.done\<close>: in a state where the channel is open it is blocked (\<open>None\<close>).\<close>

definition Wait :: "addr \<Rightarrow> 'a heap \<Rightarrow> ('a \<times> error option) option" where
  "Wait fu h = (if fu_done (h fu) then Some (fu_res (h fu), fu_err (h fu)) else None)"

definition IsDone :: "addr \<Rightarrow> 'a heap \<Rightarrow> bool" where
  "IsDone fu h = fu_done (h fu)"

text \<open>\<^verbatim>\<open>execute\<close>: the deferred \<^verbatim>\<open>close(fu.done)\<close> panics when the channel is closed already.\<close>

definition execute :: "addr \<Rightarrow> 'a heap \<Rightarrow> panic + 'a heap" where
  "execute fu h =
     (let (result, err) = fu_fn (h fu) (fu_ctx (h fu));
          cell = (h fu)\<lparr>fu_res := result, fu_err := err, fu_calls := fu_calls (h fu) + 1\<rparr>
      in if fu_done cell then Inl CloseOfClosedChannel
         else Inr (h(fu := cell\<lparr>fu_done := True\<rparr>)))"

text \<open>
  What can happen to a future, one atomic step each: a call of one of its methods by any
  goroutine, or the scheduler running one spawned \<^verbatim>\<open>fu.execute()\<close> to its end.
\<close>

datatype event = CallStart | CallCancel | CallWait | CallIsDone | Schedule

fun step :: "addr \<Rightarrow> event \<Rightarrow> 'a heap \<Rightarrow> panic + 'a heap" where
  "step fu CallStart h = Inr (snd (Start fu h))"
| "step fu CallCancel h = Inr (Cancel fu h)"
| "step fu CallWait h = Inr h"
| "step fu CallIsDone h = Inr h"
| "step fu Schedule h =
     (if fu_spawned (h fu) = 0 then Inr h
      else execute fu (h(fu := (h fu)\<lparr>fu_spawned := fu_spawned (h fu) - 1\<rparr>)))"

fun run :: "addr \<Rightarrow> event list \<Rightarrow> 'a heap \<Rightarrow> panic + 'a heap" where
  "run fu [] h = Inr h"
| "run fu (e # es) h = (case step fu e h of Inl x \<Rightarrow> Inl x | Inr h' \<Rightarrow> run fu es h')"

section \<open>Package future: the combinators WaitAll and WaitTimeout\<close>



















section \<open>Package sh: the pipeline stage (cmdImpl)\<close>

text \<open>
  Captured output is a byte string. A \<^verbatim>\<open>Result\<close> is the \<^verbatim>\<open>resultImpl\<close> behind the
  interface; the nil interface value is \<open>None\<close>.
\<close>

type_synonym bytes = string

record Result =
  exitCode :: int
  stdout :: bytes
  stderr :: bytes

text \<open>
  The process launcher is the collaborator \<^verbatim>\<open>exec.CommandContext(...).Run()\<close>. It is a
  parameter: from the command name, the arguments, the environment, the directory, the
  state of the scope and the bytes on standard input (\<open>None\<close> for a nil reader) it yields
  the error \<^verbatim>\<open>Run\<close> returns and the bytes the process wrote to its two output streams.
\<close>

record procRun =
  p_err :: "error option"
  p_stdout :: bytes
  p_stderr :: bytes

type_synonym launcher =
  "string \<Rightarrow> string list \<Rightarrow> (string \<rightharpoonup> string) \<Rightarrow> string \<Rightarrow> Context \<Rightarrow> bytes option \<Rightarrow> procRun"

text \<open>
  The fields of \<^verbatim>\<open>cmdImpl\<close>. The writers \<^verbatim>\<open>stdout\<close> and \<^verbatim>\<open>stderr\<close> always include the
  two capture buffers (every method that replaces them wraps the old writer or the buffer
  in a \<^verbatim>\<open>MultiWriter\<close>), so what the process writes is appended to the buffers.
  \<^verbatim>\<open>cancel\<close> acts on \<^verbatim>\<open>ctx\<close>; the lock \<^verbatim>\<open>mu\<close> has no counterpart. The channel \<^verbatim>\<open>done\<close>
  and the \<^verbatim>\<open>sync.Once\<close> are flags, as for the base future.

  A pipeline is a chain: stage \<open>0\<close> has no \<^verbatim>\<open>parent\<close>, and the \<^verbatim>\<open>parent\<close> of stage
  \<open>Suc i\<close> is stage \<open>i\<close>. The state of a chain maps each index to its \<^verbatim>\<open>cmdImpl\<close>.

  Two fields are not in the source and only count what the code does: \<open>cm_executed\<close> is the
  number of times \<^verbatim>\<open>execute\<close> ran up to the store of a result, \<open>cm_spawned\<close> the number of times
  the external process was run.
\<close>

record cmdImpl =
  cm_cmd :: string
  cm_ctx :: Context
  cm_args :: "string list"
  cm_env :: "string \<rightharpoonup> string"
  cm_stdoutBuffer :: bytes
  cm_stderrBuffer :: bytes
  cm_stdin :: "bytes option"
  cm_dir :: string
  cm_result :: "Result option"
  cm_err :: "error option"
  cm_done :: bool
  cm_once :: bool
  cm_executed :: nat
  cm_spawned :: nat

type_synonym pipeline = "nat \<Rightarrow> cmdImpl"

text \<open>
  A call returns, or panics (in the state reached), or blocks for ever. A goroutine spawned
  by \<^verbatim>\<open>go cm.execute()\<close> is run to its end at the point where it is spawned: its first
  action is to wait for the parent, which \<^verbatim>\<open>Start\<close> has started before, so this is one of
  the schedules of the program and no stage waits on an unfinished one.
\<close>

datatype 'a outcome = Return 'a | Panic panic pipeline | Deadlock

text \<open>\<^verbatim>\<open>Builder.Build\<close>: the items of the builder are the command name and its arguments.\<close>

datatype build_panic = NoCommandSpecified

definition new_cmdImpl :: "string \<Rightarrow> string list \<Rightarrow> Context \<Rightarrow> cmdImpl" where
  "new_cmdImpl cmd cmdArgs childCtx =
     \<lparr>cm_cmd = cmd, cm_ctx = childCtx, cm_args = cmdArgs, cm_env = Map.empty,
      cm_stdoutBuffer = [], cm_stderrBuffer = [], cm_stdin = None, cm_dir = [],
      cm_result = None, cm_err = None, cm_done = False, cm_once = False,
      cm_executed = 0, cm_spawned = 0\<rparr>"

definition Build :: "('v \<Rightarrow> string) \<Rightarrow> Context \<Rightarrow> 'v Builder option \<Rightarrow> build_panic + cmdImpl" where
  "Build fmtv ctx b =
     (case Builder_Items fmtv b of
        [] \<Rightarrow> Inl NoCommandSpecified
      | cmd # cmdArgs \<Rightarrow> Inr (new_cmdImpl cmd cmdArgs ctx))"

text \<open>The deferred \<^verbatim>\<open>close(cm.done)\<close> of \<^verbatim>\<open>execute\<close>.\<close>

definition close_done :: "nat \<Rightarrow> pipeline \<Rightarrow> pipeline outcome" where
  "close_done i s =
     (if cm_done (s i) then Panic CloseOfClosedChannel s
      else Return (s(i := (s i)\<lparr>cm_done := True\<rparr>)))"

text \<open>The launcher applied to the configuration of a stage: what \<^verbatim>\<open>cmd.Run()\<close> does.\<close>

definition procOf :: "launcher \<Rightarrow> cmdImpl \<Rightarrow> procRun" where
  "procOf exec cm =
     exec (cm_cmd cm) (cm_args cm) (cm_env cm) (cm_dir cm) (cm_ctx cm) (cm_stdin cm)"

text \<open>
  The second half of \<^verbatim>\<open>execute\<close>, from \<^verbatim>\<open>exec.CommandContext\<close> to the store of the
  result: run the process, translate the error into the exit code, store both.
\<close>

definition run_cmd :: "launcher \<Rightarrow> nat \<Rightarrow> pipeline \<Rightarrow> pipeline" where
  "run_cmd exec i s =
     (let cm = s i;
          p = procOf exec cm;
          outb = cm_stdoutBuffer cm @ p_stdout p;
          errb = cm_stderrBuffer cm @ p_stderr p;
          err = p_err p;
          code = (case err of
                    None \<Rightarrow> 0
                  | Some (ExitError c) \<Rightarrow> c
                  | Some _ \<Rightarrow> - 1)
      in s(i := cm\<lparr>cm_stdoutBuffer := outb, cm_stderrBuffer := errb,
                   cm_result := Some \<lparr>exitCode = code, stdout = outb, stderr = errb\<rparr>,
                   cm_err := err, cm_executed := cm_executed cm + 1,
                   cm_spawned := cm_spawned cm + 1\<rparr>))"

text \<open>The first half of \<^verbatim>\<open>execute\<close> when the parent's \<^verbatim>\<open>Wait\<close> returned the error \<open>err\<close>.\<close>

definition parent_failed :: "error \<Rightarrow> nat \<Rightarrow> pipeline \<Rightarrow> pipeline" where
  "parent_failed err i s =
     s(i := (s i)\<lparr>cm_result := Some \<lparr>exitCode = - 1, stdout = [], stderr = []\<rparr>,
                  cm_err := Some err, cm_executed := cm_executed (s i) + 1\<rparr>)"

text \<open>The receive \<^verbatim>\<open><-cm.done\<close> and the return of \<^verbatim>\<open>Wait\<close>.\<close>

definition recv_done :: "nat \<Rightarrow> pipeline \<Rightarrow> (Result option \<times> error option \<times> pipeline) outcome" where
  "recv_done i s =
     (if cm_done (s i) then Return (cm_result (s i), cm_err (s i), s) else Deadlock)"

definition latch :: "nat \<Rightarrow> pipeline \<Rightarrow> pipeline" where
  "latch i s = s(i := (s i)\<lparr>cm_once := True\<rparr>)"

fun Cmd_Start :: "launcher \<Rightarrow> nat \<Rightarrow> pipeline \<Rightarrow> pipeline outcome"
  and Cmd_execute :: "launcher \<Rightarrow> nat \<Rightarrow> pipeline \<Rightarrow> pipeline outcome"
  and Cmd_Wait :: "launcher \<Rightarrow> nat \<Rightarrow> pipeline \<Rightarrow> (Result option \<times> error option \<times> pipeline) outcome"
where
  "Cmd_Start exec 0 s =
     (if cm_once (s 0) then Return s else Cmd_execute exec 0 (latch 0 s))"
| "Cmd_Start exec (Suc i) s =
     (case Cmd_Start exec i s of
        Return s1 \<Rightarrow>
          if cm_once (s1 (Suc i)) then Return s1 else Cmd_execute exec (Suc i) (latch (Suc i) s1)
      | Panic p s1 \<Rightarrow> Panic p s1
      | Deadlock \<Rightarrow> Deadlock)"
| "Cmd_execute exec 0 s = close_done 0 (run_cmd exec 0 s)"
| "Cmd_execute exec (Suc i) s =
     (case Cmd_Wait exec i s of
        Return (r, err, s1) \<Rightarrow>
          (case err of
             Some e \<Rightarrow> close_done (Suc i) (parent_failed e (Suc i) s1)
           | None \<Rightarrow>
               close_done (Suc i)
                 (run_cmd exec (Suc i)
                    (s1(Suc i := (s1 (Suc i))\<lparr>cm_stdin := Some (cm_stdoutBuffer (s1 i))\<rparr>))))
      | Panic p s1 \<Rightarrow> Panic p s1
      | Deadlock \<Rightarrow> Deadlock)"
| "Cmd_Wait exec 0 s =
     (case Cmd_Start exec 0 s of
        Return s1 \<Rightarrow> recv_done 0 s1
      | Panic p s1 \<Rightarrow> Panic p s1
      | Deadlock \<Rightarrow> Deadlock)"
| "Cmd_Wait exec (Suc i) s =
     (case Cmd_Start exec (Suc i) s of
        Return s1 \<Rightarrow>
          (case Cmd_Wait exec i s1 of
             Return (r, err, s2) \<Rightarrow>
               if err \<noteq> None then Return (r, err, s2) else recv_done (Suc i) s2
           | Panic p s2 \<Rightarrow> Panic p s2
           | Deadlock \<Rightarrow> Deadlock)
      | Panic p s1 \<Rightarrow> Panic p s1
      | Deadlock \<Rightarrow> Deadlock)"

definition Cmd_Run :: "launcher \<Rightarrow> nat \<Rightarrow> pipeline \<Rightarrow> (Result option \<times> error option \<times> pipeline) outcome" where
  "Cmd_Run exec i s =
     (case Cmd_execute exec i s of
        Return s1 \<Rightarrow> Return (cm_result (s1 i), cm_err (s1 i), s1)
      | Panic p s1 \<Rightarrow> Panic p s1
      | Deadlock \<Rightarrow> Deadlock)"

text \<open>\<^verbatim>\<open>Cancel\<close> cancels the upstream stages first, then the scope of the stage.\<close>

primrec Cmd_Cancel :: "nat \<Rightarrow> pipeline \<Rightarrow> pipeline" where
  "Cmd_Cancel 0 s =
     s(0 := (s 0)\<lparr>cm_ctx := (case cm_ctx (s 0) of None \<Rightarrow> Some Canceled | Some e \<Rightarrow> Some e)\<rparr>)"
| "Cmd_Cancel (Suc i) s =
     (let s1 = Cmd_Cancel i s
      in s1(Suc i := (s1 (Suc i))\<lparr>cm_ctx := (case cm_ctx (s1 (Suc i)) of
                                              None \<Rightarrow> Some Canceled | Some e \<Rightarrow> Some e)\<rparr>))"

text \<open>A sequence of calls of \<^verbatim>\<open>Start\<close>, \<^verbatim>\<open>Run\<close> and \<^verbatim>\<open>Wait\<close> on stage \<open>i\<close>.\<close>

datatype call = CStart | CRun | CWait

fun do_call :: "launcher \<Rightarrow> nat \<Rightarrow> call \<Rightarrow> pipeline \<Rightarrow> pipeline outcome" where
  "do_call exec i CStart s = Cmd_Start exec i s"
| "do_call exec i CRun s =
     (case Cmd_Run exec i s of
        Return (r, err, s1) \<Rightarrow> Return s1
      | Panic p s1 \<Rightarrow> Panic p s1
      | Deadlock \<Rightarrow> Deadlock)"
| "do_call exec i CWait s =
     (case Cmd_Wait exec i s of
        Return (r, err, s1) \<Rightarrow> Return s1
      | Panic p s1 \<Rightarrow> Panic p s1
      | Deadlock \<Rightarrow> Deadlock)"

fun do_calls :: "launcher \<Rightarrow> nat \<Rightarrow> call list \<Rightarrow> pipeline \<Rightarrow> pipeline outcome" where
  "do_calls exec i [] s = Return s"
| "do_calls exec i (c # cs) s =
     (case do_call exec i c s of
        Return s1 \<Rightarrow> do_calls exec i cs s1
      | Panic p s1 \<Rightarrow> Panic p s1
      | Deadlock \<Rightarrow> Deadlock)"

section \<open>Invariants and summaries used in the proofs\<close>

text \<open>
  The latch invariant of a cell: before the first \<^verbatim>\<open>Start\<close> nothing was spawned or run;
  after it exactly one \<^verbatim>\<open>execute\<close> exists, spawned or finished, and the channel is closed
  exactly when it has finished.
\<close>

definition fu_inv :: "'a futureImpl \<Rightarrow> bool" where
  "fu_inv c =
     (if fu_once c
      then fu_spawned c + fu_calls c = 1 \<and> fu_done c = (fu_calls c = 1)
      else fu_spawned c = 0 \<and> fu_calls c = 0 \<and> \<not> fu_done c)"

text \<open>
  A chain is in step up to stage \<open>i\<close> when, in each stage up to \<open>i\<close>, the latch has fired
  exactly when the channel is closed. \<^verbatim>\<open>Build\<close> makes such stages, and \<^verbatim>\<open>Start\<close> and
  \<^verbatim>\<open>Wait\<close> keep a chain in step; \<^verbatim>\<open>Run\<close> closes the channel without the latch.
\<close>

primrec synced :: "nat \<Rightarrow> pipeline \<Rightarrow> bool" where
  "synced 0 s = (cm_once (s 0) = cm_done (s 0))"
| "synced (Suc i) s = (synced i s \<and> cm_once (s (Suc i)) = cm_done (s (Suc i)))"

text \<open>A chain is settled up to stage \<open>i\<close> when each stage up to \<open>i\<close> was started and is done.\<close>

primrec settled :: "nat \<Rightarrow> pipeline \<Rightarrow> bool" where
  "settled 0 s = (cm_once (s 0) \<and> cm_done (s 0))"
| "settled (Suc i) s = (settled i s \<and> cm_once (s (Suc i)) \<and> cm_done (s (Suc i)))"




section \<open>Concrete inputs\<close>

text \<open>A task that returns 42 unless its scope is cancelled, and a heap with one future.\<close>

definition cell0 :: "nat futureImpl" where
  "cell0 = \<lparr>fu_res = 0, fu_err = None, fu_done = False, fu_fn = (\<lambda>c. (0, c)), fu_ctx = None,
            fu_once = False, fu_spawned = 0, fu_calls = 0\<rparr>"

definition task42 :: "Context \<Rightarrow> nat \<times> error option" where
  "task42 c = (case c of None \<Rightarrow> (42, None) | Some e \<Rightarrow> (0, Some e))"

definition heap0 :: "nat heap" where
  "heap0 = snd (New 0 0 None task42 (\<lambda>p. cell0))"






text \<open>
  A launcher that knows a few commands, and chains of two stages as \<^verbatim>\<open>Build\<close> makes
  them. \<^verbatim>\<open>false\<close> exits with status 1 and writes nothing, \<^verbatim>\<open>grumble\<close> writes to both
  streams and exits with status 3, \<^verbatim>\<open>cat\<close> copies its input, \<^verbatim>\<open>echo\<close> writes its
  arguments, and any other command cannot be started. A cancelled scope makes the
  launcher return the scope's error.
\<close>

definition sh_exec :: launcher where
  "sh_exec cmd args env dir ctx inp =
     (case ctx of
        Some e \<Rightarrow> \<lparr>p_err = Some e, p_stdout = [], p_stderr = []\<rparr>
      | None \<Rightarrow>
          if cmd = ''echo'' then \<lparr>p_err = None, p_stdout = concat args, p_stderr = []\<rparr>
          else if cmd = ''cat''
            then \<lparr>p_err = None, p_stdout = (case inp of None \<Rightarrow> [] | Some b \<Rightarrow> b),
                   p_stderr = []\<rparr>
          else if cmd = ''false''
            then \<lparr>p_err = Some (ExitError 1), p_stdout = [], p_stderr = []\<rparr>
          else if cmd = ''grumble''
            then \<lparr>p_err = Some (ExitError 3), p_stdout = ''out'', p_stderr = ''err''\<rparr>
          else \<lparr>p_err = Some (OtherError ''executable file not found''), p_stdout = [],
                 p_stderr = []\<rparr>)"

definition stage :: "string \<Rightarrow> string list \<Rightarrow> cmdImpl" where
  "stage cmd args = new_cmdImpl cmd args None"

definition chain2 :: "cmdImpl \<Rightarrow> cmdImpl \<Rightarrow> pipeline" where
  "chain2 up down i = (case i of 0 \<Rightarrow> up | Suc k \<Rightarrow> down)"

text \<open>
  Observers of an outcome: whether the call returned or panicked, the Result and the error
  it returned, and stage \<open>i\<close> of the state it ended in.
\<close>

definition returns :: "'a outcome \<Rightarrow> bool" where
  "returns out = (case out of Return x \<Rightarrow> True | Panic p s \<Rightarrow> False | Deadlock \<Rightarrow> False)"

definition panics :: "'a outcome \<Rightarrow> bool" where
  "panics out = (case out of Return x \<Rightarrow> False | Panic p s \<Rightarrow> True | Deadlock \<Rightarrow> False)"



definition final_stage :: "nat \<Rightarrow> pipeline outcome \<Rightarrow> cmdImpl option" where
  "final_stage i out =
     (case out of Return s \<Rightarrow> Some (s i) | Panic p s \<Rightarrow> Some (s i) | Deadlock \<Rightarrow> None)"

section \<open>Theorems\<close>

subsection \<open>Empty flags are skipped by the builder\<close>

text \<open>
  C10. For every builder \<open>b\<close> (nil included) and every value \<open>v\<close>, \<^verbatim>\<open>b.OptB("")\<close> and
  \<^verbatim>\<open>b.OptV("", v)\<close> return without a panic, and the builder they return is \<open>b\<close> as it
  was, so that it renders the same \<^verbatim>\<open>Items()\<close>: an option with an empty flag is never
  added. An \<^verbatim>\<open>Opt\<close> with an empty key and no value renders no item either.
\<close>

theorem empty_flag_ignored:
  "(case OptB [] b of Inl p \<Rightarrow> False
      | Inr b' \<Rightarrow> b' = b \<and> Builder_Items fmtv b' = Builder_Items fmtv b) \<and>
   (case OptV [] v b of Inl p \<Rightarrow> False
      | Inr b' \<Rightarrow> b' = b \<and> Builder_Items fmtv b' = Builder_Items fmtv b) \<and>
   Opt_Items fmtv \<lparr>Key = [], Value = None\<rparr> = []"
  by (simp add: OptB_def OptV_def Opt_Items_def)

subsection \<open>The start latch of the base future\<close>

lemma step_inv:
  "fu_inv (h fu) \<Longrightarrow>
   \<exists>h'. step fu e h = Inr h' \<and> fu_inv (h' fu) \<and>
        (fu_once (h' fu) = (fu_once (h fu) \<or> e = CallStart))"
  by (cases e)
    (auto simp: fu_inv_def Start_def Cancel_def execute_def Let_def split: prod.splits if_splits)

lemma run_inv:
  "fu_inv (h fu) \<Longrightarrow>
   \<exists>h'. run fu es h = Inr h' \<and> fu_inv (h' fu) \<and>
        (fu_once (h' fu) = (fu_once (h fu) \<or> CallStart \<in> set es))"
proof (induction es arbitrary: h)
  case Nil
  then show ?case by simp
next
  case (Cons e es)
  from step_inv [of h fu e, OF Cons.prems] obtain h1 where
    h1: "step fu e h = Inr h1" "fu_inv (h1 fu)"
      "fu_once (h1 fu) = (fu_once (h fu) \<or> e = CallStart)"
    by blast
  from Cons.IH [of h1, OF h1(2)] h1 show ?case by auto
qed

lemma New_inv:
  "fu_inv (snd (New p zero ctx fn h) p) \<and> \<not> fu_once (snd (New p zero ctx fn h) p)"
  by (simp add: New_def fu_inv_def)

text \<open>
  C8. \<^verbatim>\<open>Start\<close> returns its receiver; after any call the latch has fired, and a call
  on a future whose latch has fired changes nothing. For a future made by \<^verbatim>\<open>New\<close> and any
  sequence of method calls and scheduler steps, with any number of \<^verbatim>\<open>Start\<close> calls among
  them, no step panics, the task body has run at most once, and the number of \<^verbatim>\<open>execute\<close>
  goroutines ever spawned (waiting or finished) is one if \<^verbatim>\<open>Start\<close> was called and zero
  otherwise.
\<close>

theorem start_idempotent:
  "fst (Start fu h) = fu \<and>
   fu_once (snd (Start fu h) fu) \<and>
   (fu_once (h fu) \<longrightarrow> snd (Start fu h) = h) \<and>
   (\<exists>h'. run fu evs (snd (New fu zero ctx fn h0)) = Inr h' \<and>
      fu_calls (h' fu) \<le> 1 \<and>
      fu_spawned (h' fu) + fu_calls (h' fu) = (if CallStart \<in> set evs then 1 else 0))"
proof -
  have a: "fst (Start fu h) = fu \<and> fu_once (snd (Start fu h) fu) \<and>
      (fu_once (h fu) \<longrightarrow> snd (Start fu h) = h)"
    by (simp add: Start_def)
  from run_inv [of "snd (New fu zero ctx fn h0)" fu evs] New_inv [of fu zero ctx fn h0]
  obtain h' where h': "run fu evs (snd (New fu zero ctx fn h0)) = Inr h'" "fu_inv (h' fu)"
    "fu_once (h' fu) = (CallStart \<in> set evs)"
    by auto
  from h'(2,3) have "fu_calls (h' fu) \<le> 1 \<and>
      fu_spawned (h' fu) + fu_calls (h' fu) = (if CallStart \<in> set evs then 1 else 0)"
    by (auto simp: fu_inv_def split: if_splits)
  with a h'(1) show ?thesis by simp
qed

theorem start_idempotent_witness:
  "fu_once (snd (Start 0 heap0) 0) \<and>
   snd (Start 0 (snd (Start 0 heap0))) = snd (Start 0 heap0) \<and>
   (case run 0 [CallStart, CallStart, Schedule, CallStart, Schedule] heap0 of
      Inl x \<Rightarrow> False
    | Inr h' \<Rightarrow> fu_calls (h' 0) = 1 \<and> fu_spawned (h' 0) = 0 \<and> Wait 0 h' = Some (42, None))"
  using start_idempotent [where fu = 0 and h = "snd (Start 0 heap0)" and
      evs = "[CallStart, CallStart, Schedule, CallStart, Schedule]" and zero = 0 and
      ctx = None and fn = task42 and ?h0.0 = "\<lambda>p. cell0"]
  by (simp add: heap0_def New_def Start_def execute_def task42_def Wait_def)

subsection \<open>Wait does not start the base future\<close>

text \<open>
  C9. For a future made by \<^verbatim>\<open>New\<close> and any sequence of method calls and scheduler steps
  in which \<^verbatim>\<open>Start\<close> is never called (calls of \<^verbatim>\<open>Wait\<close> included), no step panics and in
  the state reached \<^verbatim>\<open>Wait\<close> is blocked on the completion signal, the task body has never
  run, no goroutine is spawned and the latch has not fired. So a \<^verbatim>\<open>Wait\<close> on such a future
  never returns, and no \<^verbatim>\<open>Wait\<close> starts it.
\<close>

theorem wait_blocks_without_start:
  "CallStart \<notin> set evs \<Longrightarrow>
   \<exists>h'. run fu evs (snd (New fu zero ctx fn h)) = Inr h' \<and>
        Wait fu h' = None \<and> fu_calls (h' fu) = 0 \<and> fu_spawned (h' fu) = 0 \<and>
        \<not> fu_once (h' fu)"
proof -
  assume "CallStart \<notin> set evs"
  with run_inv [of "snd (New fu zero ctx fn h)" fu evs] New_inv [of fu zero ctx fn h]
  obtain h' where h': "run fu evs (snd (New fu zero ctx fn h)) = Inr h'" "fu_inv (h' fu)"
    "\<not> fu_once (h' fu)"
    by auto
  then show ?thesis by (auto simp: fu_inv_def Wait_def)
qed

theorem wait_blocks_without_start_witness:
  "CallStart \<notin> set [CallWait, Schedule, CallCancel, CallIsDone, CallWait] \<and>
   (case run 0 [CallWait, Schedule, CallCancel, CallIsDone, CallWait] heap0 of
      Inl x \<Rightarrow> False
    | Inr h' \<Rightarrow> Wait 0 h' = None \<and> fu_calls (h' 0) = 0)"
  using wait_blocks_without_start
    [of "[CallWait, Schedule, CallCancel, CallIsDone, CallWait]" 0 0 None task42 "\<lambda>p. cell0"]
  by (simp add: heap0_def New_def Cancel_def Wait_def)

subsection \<open>WaitAll\<close>









subsection \<open>WaitTimeout\<close>



subsection \<open>Pipeline stages: frame, termination, and what Start and Wait compute\<close>

lemma latch_other: "j \<noteq> i \<Longrightarrow> latch i s j = s j"
  by (simp add: latch_def)

lemma run_cmd_other: "j \<noteq> i \<Longrightarrow> run_cmd exec i s j = s j"
  by (simp add: run_cmd_def Let_def)

lemma parent_failed_other: "j \<noteq> i \<Longrightarrow> parent_failed e i s j = s j"
  by (simp add: parent_failed_def)

lemma close_done_Return:
  "close_done i s = Return s' \<Longrightarrow>
   \<not> cm_done (s i) \<and> s' = s(i := (s i)\<lparr>cm_done := True\<rparr>)"
  by (auto simp: close_done_def split: if_splits)

lemma recv_done_Return:
  "recv_done i s = Return (r, e, s') \<Longrightarrow>
   cm_done (s i) \<and> s' = s \<and> r = cm_result (s i) \<and> e = cm_err (s i)"
  by (auto simp: recv_done_def split: if_splits)

lemma frame:
  "Cmd_Start exec i s = Return s' \<Longrightarrow> i < j \<Longrightarrow> s' j = s j"
  "Cmd_execute exec i s = Return s' \<Longrightarrow> i < j \<Longrightarrow> s' j = s j"
  "Cmd_Wait exec i s = Return (r, e, s') \<Longrightarrow> i < j \<Longrightarrow> s' j = s j"
proof (induction exec i s and exec i s and exec i s arbitrary: s' j and s' j and r e s' j
    rule: Cmd_Start_Cmd_execute_Cmd_Wait.induct)
  case (1 exec s)
  show ?case
  proof (cases "cm_once (s 0)")
    case True
    with "1.prems" show ?thesis by simp
  next
    case False
    with "1.prems" have "Cmd_execute exec 0 (latch 0 s) = Return s'" by simp
    from "1.IH" [OF False this \<open>0 < j\<close>] \<open>0 < j\<close> show ?thesis by (simp add: latch_other)
  qed
next
  case (2 exec i s)
  from "2.prems"(1) obtain s1 where s1: "Cmd_Start exec i s = Return s1"
    by (auto split: outcome.splits)
  from "2.IH"(1) [OF s1] "2.prems"(2) have a: "s1 j = s j" by simp
  show ?case
  proof (cases "cm_once (s1 (Suc i))")
    case True
    with "2.prems"(1) s1 a show ?thesis by simp
  next
    case False
    with "2.prems"(1) s1 have "Cmd_execute exec (Suc i) (latch (Suc i) s1) = Return s'" by simp
    from "2.IH"(2) [OF s1 False this "2.prems"(2)] "2.prems"(2) a show ?thesis
      by (simp add: latch_other)
  qed
next
  case (3 exec s)
  from "3.prems" show ?case
    by (auto dest!: close_done_Return simp: run_cmd_other)
next
  case (4 exec i s)
  from "4.prems"(1) obtain r e s1 where w: "Cmd_Wait exec i s = Return (r, e, s1)"
    by (auto split: outcome.splits)
  from "4.IH" [OF w] "4.prems"(2) have a: "s1 j = s j" by (simp add:)
  from "4.prems" w a show ?case
    by (cases e) (auto dest!: close_done_Return simp: run_cmd_other parent_failed_other)
next
  case (5 exec s)
  from "5.prems"(1) obtain s1 where s1: "Cmd_Start exec 0 s = Return s1"
    by (auto split: outcome.splits)
  from "5.IH" [OF s1 "5.prems"(2)] "5.prems"(1) s1 show ?case
    by (auto dest!: recv_done_Return)
next
  case (6 exec i s)
  from "6.prems"(1) obtain s1 where s1: "Cmd_Start exec (Suc i) s = Return s1"
    by (auto split: outcome.splits)
  with "6.prems"(1) obtain r2 e2 s2 where w: "Cmd_Wait exec i s1 = Return (r2, e2, s2)"
    by (auto split: outcome.splits)
  from "6.IH"(1) [OF s1 "6.prems"(2)] have a: "s1 j = s j" .
  from "6.IH"(2) [OF s1 w] "6.prems"(2) have b: "s2 j = s1 j" by simp
  from "6.prems"(1) s1 w have "s' = s2"
    by (auto dest!: recv_done_Return split: if_splits)
  with a b show ?case by simp
qed

lemma run_cmd_at:
  "run_cmd exec i s i =
     (s i)\<lparr>cm_stdoutBuffer := cm_stdoutBuffer (s i) @ p_stdout (procOf exec (s i)),
            cm_stderrBuffer := cm_stderrBuffer (s i) @ p_stderr (procOf exec (s i)),
            cm_result := Some \<lparr>exitCode = (case p_err (procOf exec (s i)) of
                                   None \<Rightarrow> 0 | Some (ExitError c) \<Rightarrow> c | Some _ \<Rightarrow> - 1),
                 stdout = cm_stdoutBuffer (s i) @ p_stdout (procOf exec (s i)),
                 stderr = cm_stderrBuffer (s i) @ p_stderr (procOf exec (s i))\<rparr>,
            cm_err := p_err (procOf exec (s i)),
            cm_executed := cm_executed (s i) + 1,
            cm_spawned := cm_spawned (s i) + 1\<rparr>"
  by (simp add: run_cmd_def Let_def)

lemma execute_spawned:
  assumes "Cmd_execute exec i s = Return s'" and "cm_spawned (s' i) \<noteq> cm_spawned (s i)"
  shows "cm_err (s' i) = p_err (procOf exec (s' i)) \<and>
         cm_result (s' i) =
           Some \<lparr>exitCode = (case p_err (procOf exec (s' i)) of
                     None \<Rightarrow> 0 | Some (ExitError c) \<Rightarrow> c | Some _ \<Rightarrow> - 1),
                 stdout = cm_stdoutBuffer (s' i), stderr = cm_stderrBuffer (s' i)\<rparr> \<and>
         cm_stdoutBuffer (s' i) = cm_stdoutBuffer (s i) @ p_stdout (procOf exec (s' i)) \<and>
         cm_stderrBuffer (s' i) = cm_stderrBuffer (s i) @ p_stderr (procOf exec (s' i)) \<and>
         cm_spawned (s' i) = Suc (cm_spawned (s i))"
proof (cases i)
  case 0
  with assms(1) have "s' = (run_cmd exec 0 s)(0 := (run_cmd exec 0 s 0)\<lparr>cm_done := True\<rparr>)"
    by (auto dest!: close_done_Return)
  then have "s' 0 = (run_cmd exec 0 s 0)\<lparr>cm_done := True\<rparr>" by simp
  with 0 show ?thesis
    by (simp add: run_cmd_at procOf_def)
next
  case (Suc k)
  from assms(1) Suc obtain r e s1 where w: "Cmd_Wait exec k s = Return (r, e, s1)"
    by (auto split: outcome.splits)
  from frame(3) [OF w, of "Suc k"] have a: "s1 (Suc k) = s (Suc k)" by simp
  show ?thesis
  proof (cases e)
    case (Some x)
    with assms(1) Suc w have "s' = (parent_failed x (Suc k) s1)(Suc k := (parent_failed x (Suc k) s1 (Suc k))\<lparr>cm_done := True\<rparr>)"
      by (auto dest!: close_done_Return)
    then have "cm_spawned (s' (Suc k)) = cm_spawned (s1 (Suc k))"
      by (simp add: parent_failed_def)
    with a assms(2) Suc show ?thesis by simp
  next
    case None
    define s2 where "s2 = s1(Suc k := (s1 (Suc k))\<lparr>cm_stdin := Some (cm_stdoutBuffer (s1 k))\<rparr>)"
    from None assms(1) Suc w have "s' = (run_cmd exec (Suc k) s2)(Suc k := (run_cmd exec (Suc k) s2 (Suc k))\<lparr>cm_done := True\<rparr>)"
      by (auto dest!: close_done_Return simp: s2_def)
    then have "s' (Suc k) = (run_cmd exec (Suc k) s2 (Suc k))\<lparr>cm_done := True\<rparr>" by simp
    moreover have "s2 (Suc k) = (s (Suc k))\<lparr>cm_stdin := Some (cm_stdoutBuffer (s1 k))\<rparr>"
      using a by (simp add: s2_def)
    ultimately show ?thesis using Suc
      by (simp add: run_cmd_at procOf_def)
  qed
qed

lemma synced_cong: "(\<And>j. j \<le> i \<Longrightarrow> t j = s j) \<Longrightarrow> synced i t = synced i s"
  by (induction i) auto

lemma settled_cong: "(\<And>j. j \<le> i \<Longrightarrow> t j = s j) \<Longrightarrow> settled i t = settled i s"
  by (induction i) auto

lemma settled_synced: "settled i s \<Longrightarrow> synced i s"
  by (induction i) auto

lemma settled_done: "settled i s \<Longrightarrow> cm_done (s i) \<and> cm_once (s i)"
  by (cases i) auto

lemma close_done_ok: "\<not> cm_done (s i) \<Longrightarrow> close_done i s = Return (s(i := (s i)\<lparr>cm_done := True\<rparr>))"
  by (simp add: close_done_def)

lemma total:
  "synced i s \<Longrightarrow> \<exists>s'. Cmd_Start exec i s = Return s' \<and> settled i s'"
  "(case i of 0 \<Rightarrow> True | Suc k \<Rightarrow> synced k s) \<Longrightarrow> \<not> cm_done (s i) \<Longrightarrow>
     \<exists>s'. Cmd_execute exec i s = Return s' \<and> (case i of 0 \<Rightarrow> True | Suc k \<Rightarrow> settled k s') \<and>
       cm_done (s' i) \<and> cm_once (s' i) = cm_once (s i)"
  "synced i s \<Longrightarrow> \<exists>r e s'. Cmd_Wait exec i s = Return (r, e, s') \<and> settled i s'"
proof (induction exec i s and exec i s and exec i s
    rule: Cmd_Start_Cmd_execute_Cmd_Wait.induct)
  case (1 exec s)
  show ?case
  proof (cases "cm_once (s 0)")
    case True
    with "1.prems" show ?thesis by simp
  next
    case False
    with "1.prems" have nd: "\<not> cm_done (latch 0 s 0)" by (simp add: latch_def)
    from "1.IH" [OF False _ nd] obtain s' where
      "Cmd_execute exec 0 (latch 0 s) = Return s'" "cm_done (s' 0)" "cm_once (s' 0) = cm_once (latch 0 s 0)"
      by auto
    with False show ?thesis by (simp add: latch_def)
  qed
next
  case (2 exec i s)
  from "2.prems" have "synced i s" by simp
  from "2.IH"(1) [OF this] obtain s1 where s1: "Cmd_Start exec i s = Return s1" "settled i s1"
    by blast
  from frame(1) [OF s1(1), of "Suc i"] have a: "s1 (Suc i) = s (Suc i)" by simp
  show ?case
  proof (cases "cm_once (s1 (Suc i))")
    case True
    with a "2.prems" s1 show ?thesis by simp
  next
    case False
    with a "2.prems" have nd: "\<not> cm_done (latch (Suc i) s1 (Suc i))" by (simp add: latch_def)
    have "synced i (latch (Suc i) s1)"
      using settled_synced [OF s1(2)] synced_cong [of i "latch (Suc i) s1" s1]
      by (simp add: latch_other)
    then have pre: "case Suc i of 0 \<Rightarrow> True | Suc k \<Rightarrow> synced k (latch (Suc i) s1)" by simp
    from "2.IH"(2) [OF s1(1) False pre nd] obtain s' where
      "Cmd_execute exec (Suc i) (latch (Suc i) s1) = Return s'" "settled i s'"
      "cm_done (s' (Suc i))" "cm_once (s' (Suc i)) = cm_once (latch (Suc i) s1 (Suc i))"
      by auto
    with False s1(1) show ?thesis by (simp add: latch_def)
  qed
next
  case (3 exec s)
  from "3.prems"(2) have "\<not> cm_done (run_cmd exec 0 s 0)"
    by (simp add: run_cmd_def Let_def)
  from close_done_ok [of "run_cmd exec 0 s" 0, OF this] show ?case
    by (simp add: run_cmd_def Let_def)
next
  case (4 exec i s)
  from "4.prems"(1) have "synced i s"
    using synced_cong [of i s s] by (simp add:)
  from "4.IH" [OF this] obtain r e s1 where
    w: "Cmd_Wait exec i s = Return (r, e, s1)" "settled i s1"
    by blast
  from frame(3) [OF w(1), of "Suc i"] have a: "s1 (Suc i) = s (Suc i)" by simp
  show ?case
  proof (cases e)
    case (Some x)
    let ?t = "parent_failed x (Suc i) s1"
    from a "4.prems"(2) have "\<not> cm_done (?t (Suc i))"
      by (simp add: parent_failed_def)
    from close_done_ok [of ?t "Suc i", OF this]
    have c: "close_done (Suc i) ?t = Return (?t(Suc i := (?t (Suc i))\<lparr>cm_done := True\<rparr>))" .
    have "settled i (?t(Suc i := (?t (Suc i))\<lparr>cm_done := True\<rparr>))"
      using w(2) settled_cong [of i "?t(Suc i := (?t (Suc i))\<lparr>cm_done := True\<rparr>)" s1]
      by (simp add: parent_failed_other)
    with c w(1) Some a show ?thesis
      by (simp add: parent_failed_def)
  next
    case None
    let ?u = "s1(Suc i := (s1 (Suc i))\<lparr>cm_stdin := Some (cm_stdoutBuffer (s1 i))\<rparr>)"
    let ?t = "run_cmd exec (Suc i) ?u"
    from a "4.prems"(2) have "\<not> cm_done (?t (Suc i))"
      by (simp add: run_cmd_at)
    from close_done_ok [of ?t "Suc i", OF this]
    have c: "close_done (Suc i) ?t = Return (?t(Suc i := (?t (Suc i))\<lparr>cm_done := True\<rparr>))" .
    have "settled i (?t(Suc i := (?t (Suc i))\<lparr>cm_done := True\<rparr>))"
      using w(2) settled_cong [of i "?t(Suc i := (?t (Suc i))\<lparr>cm_done := True\<rparr>)" s1]
      by (simp add: run_cmd_other)
    with c w(1) None a show ?thesis
      by (simp add: run_cmd_at)
  qed
next
  case (5 exec s)
  from "5.IH" [OF "5.prems"] obtain s1 where s1: "Cmd_Start exec 0 s = Return s1" "settled 0 s1"
    by blast
  then show ?case by (simp add: recv_done_def)
next
  case (6 exec i s)
  from "6.IH"(1) [OF "6.prems"] obtain s1 where
    s1: "Cmd_Start exec (Suc i) s = Return s1" "settled (Suc i) s1"
    by blast
  then have "synced i s1" using settled_synced [of i s1] by simp
  from "6.IH"(2) [OF s1(1) this] obtain r e s2 where
    w: "Cmd_Wait exec i s1 = Return (r, e, s2)" "settled i s2"
    by blast
  from frame(3) [OF w(1), of "Suc i"] have "s2 (Suc i) = s1 (Suc i)" by simp
  with s1(2) w(2) have "settled (Suc i) s2" by simp
  with s1(1) w(1) show ?case by (auto simp: recv_done_def)
qed

















text \<open>The concrete stages are the ones \<^verbatim>\<open>New(cmd).Build(ctx)\<close> makes under a live scope.\<close>

lemma Build_stage: "Build fmtv None (New_Builder cmd) = Inr (stage cmd [])"
  by (simp add: Build_def New_Builder_def Builder_Items_def stage_def)

lemmas stage_defs =
  new_cmdImpl_def latch_def run_cmd_def procOf_def close_done_def recv_done_def
  parent_failed_def Cmd_Run_def

subsection \<open>The exit code of a stage\<close>

text \<open>
  C7. An execution of a stage that is entered with its upstream stages in step (latch
  fired exactly when done) and its own channel open returns. Whenever an execution
  returns and has run the external process, the stored error is the one the launcher
  returned and the stored Result holds the exit code 0 when that error is nil, the code
  of the exit error when it is one, and -1 for any other error.
\<close>

theorem exit_code_normalized:
  "((case i of 0 \<Rightarrow> True | Suc k \<Rightarrow> synced k s) \<and> \<not> cm_done (s i) \<longrightarrow>
      (\<exists>s'. Cmd_execute exec i s = Return s')) \<and>
   (Cmd_execute exec i s = Return s' \<and> cm_spawned (s' i) \<noteq> cm_spawned (s i) \<longrightarrow>
      (\<exists>r. cm_result (s' i) = Some r \<and> cm_err (s' i) = p_err (procOf exec (s' i)) \<and>
         (p_err (procOf exec (s' i)) = None \<longrightarrow> exitCode r = 0) \<and>
         (\<forall>c. p_err (procOf exec (s' i)) = Some (ExitError c) \<longrightarrow> exitCode r = c) \<and>
         (\<forall>e. p_err (procOf exec (s' i)) = Some e \<and> (\<forall>c. e \<noteq> ExitError c) \<longrightarrow>
            exitCode r = - 1)))"
proof -
  have A: "(case i of 0 \<Rightarrow> True | Suc k \<Rightarrow> synced k s) \<and> \<not> cm_done (s i) \<longrightarrow>
      (\<exists>s'. Cmd_execute exec i s = Return s')"
    using total(2) [where i = i and s = s and exec = exec] by blast
  have B: "Cmd_execute exec i s = Return s' \<and> cm_spawned (s' i) \<noteq> cm_spawned (s i) \<longrightarrow>
      (\<exists>r. cm_result (s' i) = Some r \<and> cm_err (s' i) = p_err (procOf exec (s' i)) \<and>
         (p_err (procOf exec (s' i)) = None \<longrightarrow> exitCode r = 0) \<and>
         (\<forall>c. p_err (procOf exec (s' i)) = Some (ExitError c) \<longrightarrow> exitCode r = c) \<and>
         (\<forall>e. p_err (procOf exec (s' i)) = Some e \<and> (\<forall>c. e \<noteq> ExitError c) \<longrightarrow>
            exitCode r = - 1))"
  proof
    assume h: "Cmd_execute exec i s = Return s' \<and> cm_spawned (s' i) \<noteq> cm_spawned (s i)"
    then have x: "cm_err (s' i) = p_err (procOf exec (s' i))"
      "cm_result (s' i) =
         Some \<lparr>exitCode = (case p_err (procOf exec (s' i)) of
                   None \<Rightarrow> 0 | Some (ExitError c) \<Rightarrow> c | Some _ \<Rightarrow> - 1),
               stdout = cm_stdoutBuffer (s' i), stderr = cm_stderrBuffer (s' i)\<rparr>"
      using execute_spawned [of exec i s s'] by auto
    show "\<exists>r. cm_result (s' i) = Some r \<and> cm_err (s' i) = p_err (procOf exec (s' i)) \<and>
         (p_err (procOf exec (s' i)) = None \<longrightarrow> exitCode r = 0) \<and>
         (\<forall>c. p_err (procOf exec (s' i)) = Some (ExitError c) \<longrightarrow> exitCode r = c) \<and>
         (\<forall>e. p_err (procOf exec (s' i)) = Some e \<and> (\<forall>c. e \<noteq> ExitError c) \<longrightarrow>
            exitCode r = - 1)"
      unfolding x by (auto split: error.splits)
  qed
  from A B show ?thesis by blast
qed

theorem exit_code_normalized_witness:
  "map_option (\<lambda>cm. (cm_result cm, cm_err cm))
      (final_stage 0 (Cmd_execute sh_exec 0 (chain2 (stage ''echo'' [''hi'']) (stage ''cat'' [])))) =
     Some (Some \<lparr>exitCode = 0, stdout = ''hi'', stderr = []\<rparr>, None) \<and>
   map_option (\<lambda>cm. (cm_result cm, cm_err cm))
      (final_stage 0 (Cmd_execute sh_exec 0 (chain2 (stage ''grumble'' []) (stage ''cat'' [])))) =
     Some (Some \<lparr>exitCode = 3, stdout = ''out'', stderr = ''err''\<rparr>, Some (ExitError 3)) \<and>
   map_option (\<lambda>cm. (cm_result cm, cm_err cm))
      (final_stage 0 (Cmd_execute sh_exec 0 (chain2 (stage ''nosuch'' []) (stage ''cat'' [])))) =
     Some (Some \<lparr>exitCode = - 1, stdout = [], stderr = []\<rparr>,
           Some (OtherError ''executable file not found''))"
  using exit_code_normalized [where exec = sh_exec and i = 0 and
      s = "chain2 (stage ''grumble'' []) (stage ''cat'' [])"]
  by (simp add: stage_defs Let_def sh_exec_def stage_def chain2_def final_stage_def)

subsection \<open>A non-zero exit is an error of the stage\<close>




subsection \<open>A failed upstream stage\<close>



subsection \<open>The Result returned with an error\<close>




subsection \<open>Run is not behind the start latch\<close>

text \<open>
  C2 fails on the code: \<^verbatim>\<open>Run\<close> calls \<^verbatim>\<open>execute\<close> directly, not through the
  \<^verbatim>\<open>sync.Once\<close> that \<^verbatim>\<open>Start\<close> uses. Two calls of \<^verbatim>\<open>Run\<close> on one stage, or a
  \<^verbatim>\<open>Start\<close> followed by a \<^verbatim>\<open>Run\<close>, or a \<^verbatim>\<open>Run\<close> followed by a \<^verbatim>\<open>Wait\<close>, enter the body
  of \<^verbatim>\<open>execute\<close> twice and run the external process twice; the second \<^verbatim>\<open>close\<close> of the
  completion channel panics. With \<^verbatim>\<open>Start\<close> and \<^verbatim>\<open>Wait\<close> alone the body is entered once.
\<close>

theorem Run_executes_again:
  "panics (do_calls sh_exec 0 [CRun, CRun] (chain2 (stage ''echo'' [''hi'']) (stage ''cat'' []))) \<and>
   map_option cm_executed
     (final_stage 0 (do_calls sh_exec 0 [CRun, CRun]
        (chain2 (stage ''echo'' [''hi'']) (stage ''cat'' [])))) = Some 2 \<and>
   map_option cm_spawned
     (final_stage 0 (do_calls sh_exec 0 [CRun, CRun]
        (chain2 (stage ''echo'' [''hi'']) (stage ''cat'' [])))) = Some 2 \<and>
   panics (do_calls sh_exec 0 [CStart, CRun] (chain2 (stage ''echo'' [''hi'']) (stage ''cat'' []))) \<and>
   map_option cm_executed
     (final_stage 0 (do_calls sh_exec 0 [CStart, CRun]
        (chain2 (stage ''echo'' [''hi'']) (stage ''cat'' [])))) = Some 2 \<and>
   panics (do_calls sh_exec 0 [CRun, CWait] (chain2 (stage ''echo'' [''hi'']) (stage ''cat'' []))) \<and>
   map_option cm_executed
     (final_stage 0 (do_calls sh_exec 0 [CRun, CWait]
        (chain2 (stage ''echo'' [''hi'']) (stage ''cat'' [])))) = Some 2 \<and>
   returns (do_calls sh_exec 0 [CStart, CWait, CStart, CWait]
     (chain2 (stage ''echo'' [''hi'']) (stage ''cat'' []))) \<and>
   map_option cm_executed
     (final_stage 0 (do_calls sh_exec 0 [CStart, CWait, CStart, CWait]
        (chain2 (stage ''echo'' [''hi'']) (stage ''cat'' [])))) = Some 1"
  by (simp add: stage_defs Let_def sh_exec_def stage_def chain2_def panics_def returns_def final_stage_def)

end
